theory Spec2Isabelle
  imports Complex_Main
begin

section \<open>Values, errors and dates\<close>

text \<open>
  The exceptions the modelled functions can raise. A function that can raise returns
  \<open>error + 'a\<close>, with \<open>Inl\<close> for the exception.
\<close>

datatype error =
    ValueError
  | OverflowError
  | AttributeError
  | TypeError
  | KeyError
  | UnboundLocalError
  | ZeroDivisionError

text \<open>
  A \<open>datetime.date\<close> is modelled by its proleptic Gregorian ordinal (\<open>date.toordinal()\<close>):
  day 1 is 0001-01-01 and \<open>date.max\<close>, 9999-12-31, is day 3652059. Comparison of dates is
  comparison of ordinals, and \<open>(b - a).days\<close> is \<open>b - a\<close>.
\<close>

definition MAXORDINAL :: int where
  "MAXORDINAL = 3652059"

definition valid_date :: "int \<Rightarrow> bool" where
  "valid_date d = (1 \<le> d \<and> d \<le> MAXORDINAL)"

text \<open>\<open>d + datetime.timedelta(days=k)\<close>: raises OverflowError outside the range of dates.\<close>

definition date_add_days :: "int \<Rightarrow> int \<Rightarrow> error + int" where
  "date_add_days d k =
     (if 0 < d + k \<and> d + k \<le> MAXORDINAL then Inr (d + k) else Inl OverflowError)"

subsection \<open>The calendar of the datetime module\<close>

definition is_leap :: "int \<Rightarrow> bool" where
  "is_leap y = (y mod 4 = 0 \<and> (y mod 100 \<noteq> 0 \<or> y mod 400 = 0))"

definition days_before_year :: "int \<Rightarrow> int" where
  "days_before_year year =
     (let y = year - 1 in y * 365 + y div 4 - y div 100 + y div 400)"

definition DAYS_IN_MONTH :: "int list" where
  "DAYS_IN_MONTH = [31, 28, 31, 30, 31, 30, 31, 31, 30, 31, 30, 31]"

definition days_in_month :: "int \<Rightarrow> int \<Rightarrow> int" where
  "days_in_month year month =
     (if month = 2 \<and> is_leap year then 29 else DAYS_IN_MONTH ! nat (month - 1))"

definition DAYS_BEFORE_MONTH :: "int list" where
  "DAYS_BEFORE_MONTH = [0, 31, 59, 90, 120, 151, 181, 212, 243, 273, 304, 334]"

definition days_before_month :: "int \<Rightarrow> int \<Rightarrow> int" where
  "days_before_month year month =
     DAYS_BEFORE_MONTH ! nat (month - 1) + (if month > 2 \<and> is_leap year then 1 else 0)"

definition ymd2ord :: "int \<Rightarrow> int \<Rightarrow> int \<Rightarrow> int" where
  "ymd2ord year month day = days_before_year year + days_before_month year month + day"

text \<open>The inverse, by 400-, 100-, 4- and 1-year cycles as the datetime module does it.\<close>

definition ord2ymd :: "int \<Rightarrow> int \<times> int \<times> int" where
  "ord2ymd ordinal =
     (let n = ordinal - 1;
          n400 = n div 146097; n = n mod 146097;
          n100 = n div 36524; n = n mod 36524;
          n4 = n div 1461; n = n mod 1461;
          n1 = n div 365; n = n mod 365;
          year = n400 * 400 + 1 + n100 * 100 + n4 * 4 + n1
      in if n1 = 4 \<or> n100 = 4 then (year - 1, 12, 31)
         else
           let leapyear = (n1 = 3 \<and> (n4 \<noteq> 24 \<or> n100 = 3));
               month = (n + 50) div 32;
               preceding = DAYS_BEFORE_MONTH ! nat (month - 1)
                             + (if month > 2 \<and> leapyear then 1 else 0)
           in if preceding > n
              then (year, month - 1,
                    n - (preceding - (DAYS_IN_MONTH ! nat (month - 2)
                                        + (if month - 1 = 2 \<and> leapyear then 1 else 0))) + 1)
              else (year, month, n - preceding + 1))"

text \<open>The attribute \<open>d.year\<close>.\<close>

definition year_of :: "int \<Rightarrow> int" where
  "year_of d = fst (ord2ymd d)"

text \<open>
  \<open>d - relativedelta(years=years, months=months)\<close> of dateutil, for \<open>0 \<le> months \<le> 12\<close>: the
  year and the month are moved, the day is clipped to the length of the month reached, and
  \<open>date.replace\<close> raises ValueError for a year outside 1..9999.
\<close>

definition sub_relativedelta :: "int \<Rightarrow> int \<Rightarrow> int \<Rightarrow> error + int" where
  "sub_relativedelta d years months =
     (case ord2ymd d of (y, m, dd) \<Rightarrow>
        let year = y - years;
            month = m - months;
            year = (if months \<noteq> 0 \<and> month < 1 then year - 1 else year);
            month = (if months \<noteq> 0 \<and> month < 1 then month + 12 else month);
            day = min (days_in_month year month) dd
        in if year < 1 \<or> 9999 < year then Inl ValueError
           else Inr (ymd2ord year month day))"

section \<open>CSVFile.get_dates\<close>

text \<open>
  An argument of \<open>get_dates\<close> is absent, a text or a date. A text is converted by
  \<open>datetime.datetime.strptime(s, "%Y-%m-%d").date()\<close>, which is a parameter \<open>strptime\<close> of the
  model; the empty text is falsy, so it is neither converted nor kept.
\<close>

datatype date_arg = DateStr string | DateObj int

definition DEFAULT_DATE_DELTA_DAYS :: int where
  "DEFAULT_DATE_DELTA_DAYS = 7"

fun to_date :: "(string \<Rightarrow> error + int) \<Rightarrow> date_arg option \<Rightarrow> error + int option" where
  "to_date strptime None = Inr None"
| "to_date strptime (Some (DateObj d)) = Inr (Some d)"
| "to_date strptime (Some (DateStr s)) =
     (if s = [] then Inr None
      else case strptime s of Inl e \<Rightarrow> Inl e | Inr d \<Rightarrow> Inr (Some d))"

text \<open>The loop \<open>while date_from <= date_to: dates.append(date_from); date_from += 1 day\<close>.\<close>

function dates_loop :: "int \<Rightarrow> int \<Rightarrow> int list \<Rightarrow> error + int list" where
  "dates_loop date_from date_to dates =
     (if date_from \<le> date_to
      then (case date_add_days date_from 1 of
              Inl e \<Rightarrow> Inl e
            | Inr next_date \<Rightarrow> dates_loop next_date date_to (dates @ [date_from]))
      else Inr dates)"
  by pat_completeness auto
termination
  by (relation "measure (\<lambda>(date_from, date_to, dates). nat (date_to - date_from + 1))")
     (auto simp: date_add_days_def split: if_splits)

definition get_dates ::
  "(string \<Rightarrow> error + int) \<Rightarrow> int \<Rightarrow> date_arg option \<Rightarrow> date_arg option \<Rightarrow> error + int list"
where
  "get_dates strptime today date_from date_to =
     (case to_date strptime date_from of
        Inl e \<Rightarrow> Inl e
      | Inr date_from \<Rightarrow>
     (case to_date strptime date_to of
        Inl e \<Rightarrow> Inl e
      | Inr date_to \<Rightarrow>
     (let date_to = (case date_to of None \<Rightarrow> today | Some d \<Rightarrow> d) in
      case (case date_from of
              None \<Rightarrow> date_add_days date_to (- DEFAULT_DATE_DELTA_DAYS)
            | Some d \<Rightarrow> Inr d) of
        Inl e \<Rightarrow> Inl e
      | Inr date_from \<Rightarrow> dates_loop date_from date_to [])))"

text \<open>A \<open>strptime\<close> for calls that pass no text: it rejects every text.\<close>

definition strptime_reject :: "string \<Rightarrow> error + int" where
  "strptime_reject s = Inl ValueError"

section \<open>Stored records and querysets\<close>

text \<open>
  A stored record has a date and numeric attributes read by name with \<open>getattr\<close>
  (\<open>avg_uah\<close>, \<open>avg_usd\<close>, \<open>avg_euro\<close>, a size column, ...). Values are exact rationals:
  the rounding of floating-point arithmetic is not modelled. The model classes themselves
  are declared outside this file, so \<open>cls.objects\<close> is a parameter: the list of the
  records of the class in the order in which its manager yields them. \<open>filter\<close> keeps
  that order, and \<open>first()\<close> and \<open>last()\<close> take its ends.
\<close>

record row =
  date :: int
  attrs :: "string \<Rightarrow> rat option"

definition qs_first :: "row list \<Rightarrow> row option" where
  "qs_first qs = (case qs of [] \<Rightarrow> None | r # _ \<Rightarrow> Some r)"

definition qs_last :: "row list \<Rightarrow> row option" where
  "qs_last qs = (if qs = [] then None else Some (last qs))"

text \<open>
  \<open>getattr(r, name)\<close> on a record: TypeError when the name is None, AttributeError when the
  record has no such attribute.
\<close>

definition getattr :: "row \<Rightarrow> string option \<Rightarrow> error + rat" where
  "getattr r name =
     (case name of
        None \<Rightarrow> Inl TypeError
      | Some f \<Rightarrow> (case attrs r f of None \<Rightarrow> Inl AttributeError | Some v \<Rightarrow> Inr v))"

text \<open>\<open>a / b\<close> of Python: ZeroDivisionError on a zero divisor.\<close>

definition py_div :: "rat \<Rightarrow> rat \<Rightarrow> error + rat" where
  "py_div a b = (if b = 0 then Inl ZeroDivisionError else Inr (a / b))"

subsection \<open>Currencies\<close>

definition UAH :: int where "UAH = 1"

definition USD :: int where "USD = 2"

definition EURO :: int where "EURO = 3"

text \<open>\<open>CSVFile.CURRENCY_FIELDS.get(code)\<close>: None for a code that is not a key.\<close>

definition CURRENCY_FIELDS_get :: "int \<Rightarrow> string option" where
  "CURRENCY_FIELDS_get code =
     (if code = UAH then Some ''avg_uah''
      else if code = USD then Some ''avg_usd''
      else if code = EURO then Some ''avg_euro''
      else None)"

text \<open>
  The currency argument is absent or a numeric code; \<open>if currency:\<close> is false for an absent
  currency and for the code 0.
\<close>

definition currency_field :: "int option \<Rightarrow> string option" where
  "currency_field currency =
     (case currency of
        None \<Rightarrow> Some ''avg_uah''
      | Some c \<Rightarrow> if c \<noteq> 0 then CURRENCY_FIELDS_get c else Some ''avg_uah'')"

text \<open>\<open>s.replace(old, new)\<close> for a non-empty \<open>old\<close>: every occurrence, left to right.\<close>

fun str_replace :: "string \<Rightarrow> string \<Rightarrow> string \<Rightarrow> string" where
  "str_replace old new [] = []"
| "str_replace old new (c # cs) =
     (if old \<noteq> [] \<and> take (length old) (c # cs) = old
      then new @ str_replace old new (drop (length old - 1) cs)
      else c # str_replace old new cs)"

section \<open>CalculateMixin.get_data_charts\<close>

text \<open>
  The loop over \<open>dates\<close>: the record of exactly that date among \<open>data_from_db\<close>, else the
  baseline value; appended as it is when the baseline is 0, else scaled.
\<close>

fun charts_loop ::
  "row list \<Rightarrow> string option \<Rightarrow> rat \<Rightarrow> int list \<Rightarrow> rat list \<Rightarrow> error + rat list"
where
  "charts_loop data_from_db calculating_field standart_value [] calculated_data =
     Inr calculated_data"
| "charts_loop data_from_db calculating_field standart_value (step_date # dates) calculated_data =
     (case (case qs_first (filter (\<lambda>r. date r = step_date) data_from_db) of
              Some step_row \<Rightarrow> getattr step_row calculating_field
            | None \<Rightarrow> Inr standart_value) of
        Inl e \<Rightarrow> Inl e
      | Inr step_value \<Rightarrow>
          if standart_value = 0
          then charts_loop data_from_db calculating_field standart_value dates
                 (calculated_data @ [step_value])
          else charts_loop data_from_db calculating_field standart_value dates
                 (calculated_data @ [(step_value * 100) / standart_value]))"

text \<open>
  The attribute read from the records. \<open>cls_name\<close> is \<open>cls.__name__\<close>: for the class
  CompositeIndex the prefix \<open>avg_\<close> is removed, and \<open>None.replace\<close> raises AttributeError.
\<close>

definition charts_field :: "string \<Rightarrow> int option \<Rightarrow> error + string option" where
  "charts_field cls_name currency =
     (if cls_name = ''CompositeIndex''
      then (case currency_field currency of
              None \<Rightarrow> Inl AttributeError
            | Some f \<Rightarrow> Inr (Some (str_replace ''avg_'' [] f)))
      else Inr (currency_field currency))"

text \<open>\<open>objects\<close> is \<open>cls.objects\<close>. The result \<open>Inr None\<close> is the bare \<open>return\<close>.\<close>

definition get_data_charts ::
  "string \<Rightarrow> row list \<Rightarrow> int list \<Rightarrow> int option \<Rightarrow> error + rat list option"
where
  "get_data_charts cls_name objects dates currency =
     (if length dates < 2 then Inr None
      else
        case charts_field cls_name currency of
          Inl e \<Rightarrow> Inl e
        | Inr calculating_field \<Rightarrow>
            (case qs_last (filter (\<lambda>r. date r \<le> hd dates) objects) of
               None \<Rightarrow> Inr None
             | Some standart_row \<Rightarrow>
                 (case getattr standart_row calculating_field of
                    Inl e \<Rightarrow> Inl e
                  | Inr standart_value \<Rightarrow>
                      map_sum id Some
                        (charts_loop
                           (filter (\<lambda>r. hd dates \<le> date r \<and> date r \<le> last dates) objects)
                           calculating_field standart_value dates []))))"

section \<open>CalculateMixin.grahp_specification_data\<close>

definition TYPE_INDEX :: int where "TYPE_INDEX = 1"

definition TYPE_SHEET :: int where "TYPE_SHEET = 2"

definition TYPE_BALKA :: int where "TYPE_BALKA = 3"

definition TYPE_SCHVELLER :: int where "TYPE_SCHVELLER = 4"

definition TYPE_UGOLOK :: int where "TYPE_UGOLOK = 5"

definition TYPE_PROFIL_TRUBA :: int where "TYPE_PROFIL_TRUBA = 6"

definition TYPE_KRUGLAYA_TRUBA :: int where "TYPE_KRUGLAYA_TRUBA = 7"

definition TYPE_FINAL_METHOD :: int where "TYPE_FINAL_METHOD = 8"

definition TYPE_EXCHANGE_RATES :: int where "TYPE_EXCHANGE_RATES = 9"

definition TYPE_SHARE_SPECIFICATIONS :: int where "TYPE_SHARE_SPECIFICATIONS = 10"

text \<open>The model classes of the six products; the store gives the records of each.\<close>

datatype klass = SheetGK | Balka | Schveller | Ugolok | ProfilTruba | KruglayaTruba

text \<open>\<open>CSVFile.get_class_mapping().get(code)\<close>.\<close>

definition get_class_mapping_get :: "int \<Rightarrow> klass option" where
  "get_class_mapping_get code =
     (if code = TYPE_SHEET then Some SheetGK
      else if code = TYPE_BALKA then Some Balka
      else if code = TYPE_SCHVELLER then Some Schveller
      else if code = TYPE_UGOLOK then Some Ugolok
      else if code = TYPE_PROFIL_TRUBA then Some ProfilTruba
      else if code = TYPE_KRUGLAYA_TRUBA then Some KruglayaTruba
      else None)"

text \<open>
  The specification \<open>kwargs\<close> is the list of its items in the order of the dictionary: the
  key as the number \<open>int(graph_key)\<close> and the weight \<open>kwargs[graph_key]['value']\<close>.

  The first loop caches the records of each category. Where a category has records, the
  statement \<open>standard_value += ...\<close> follows: \<open>standard_value\<close> is a local name that no
  statement binds (the accumulator initialised before the loop is \<open>standart_value\<close>), the
  augmented assignment reads it before anything else, and that read raises
  UnboundLocalError. \<open>None.objects\<close>, for a key that is no product code, raises
  AttributeError.
\<close>

fun cache_loop ::
  "(klass \<Rightarrow> row list) \<Rightarrow> int list \<Rightarrow> (int \<times> rat) list \<Rightarrow> (int \<times> row list) list
     \<Rightarrow> error + (int \<times> row list) list"
where
  "cache_loop db dates [] cached_data = Inr cached_data"
| "cache_loop db dates ((graph_key, w) # kwargs) cached_data =
     (case get_class_mapping_get graph_key of
        None \<Rightarrow> Inl AttributeError
      | Some klass \<Rightarrow>
          let period_data = filter (\<lambda>r. hd dates \<le> date r \<and> date r \<le> last dates) (db klass);
              period_data = (if period_data = []
                             then filter (\<lambda>r. date r \<le> last dates) (db klass)
                             else period_data)
          in if period_data = []
             then cache_loop db dates kwargs (cached_data @ [(graph_key, period_data)])
             else Inl UnboundLocalError)"

text \<open>
  The inner loop of one date: exact record, else the last one at or before the date, else
  the first one at or after it, else the category is skipped.
\<close>

fun summ_loop ::
  "string option \<Rightarrow> (int \<times> rat) list \<Rightarrow> int \<Rightarrow> (int \<times> row list) list \<Rightarrow> rat \<Rightarrow> error + rat"
where
  "summ_loop calculating_field kwargs step_date [] summ = Inr summ"
| "summ_loop calculating_field kwargs step_date ((graph_key, pool) # cached_data) summ =
     (let data_step = qs_first (filter (\<lambda>r. date r = step_date) pool);
          data_step = (if data_step = None
                       then qs_last (filter (\<lambda>r. date r \<le> step_date) pool)
                       else data_step);
          data_step = (if data_step = None
                       then qs_first (filter (\<lambda>r. step_date \<le> date r) pool)
                       else data_step)
      in case data_step of
           None \<Rightarrow> summ_loop calculating_field kwargs step_date cached_data summ
         | Some r \<Rightarrow>
             (case getattr r calculating_field of
                Inl e \<Rightarrow> Inl e
              | Inr v \<Rightarrow>
                  (case map_of kwargs graph_key of
                     None \<Rightarrow> Inl KeyError
                   | Some w \<Rightarrow>
                       summ_loop calculating_field kwargs step_date cached_data (summ + v * w))))"

fun spec_dates_loop ::
  "string option \<Rightarrow> (int \<times> rat) list \<Rightarrow> (int \<times> row list) list \<Rightarrow> rat \<Rightarrow> int list
     \<Rightarrow> rat list \<Rightarrow> error + rat list"
where
  "spec_dates_loop calculating_field kwargs cached_data standart_value [] calculated_data =
     Inr calculated_data"
| "spec_dates_loop calculating_field kwargs cached_data standart_value (step_date # dates)
       calculated_data =
     (case summ_loop calculating_field kwargs step_date cached_data 0 of
        Inl e \<Rightarrow> Inl e
      | Inr summ \<Rightarrow>
          (case py_div (summ * 100) standart_value of
             Inl e \<Rightarrow> Inl e
           | Inr v \<Rightarrow>
               spec_dates_loop calculating_field kwargs cached_data standart_value dates
                 (calculated_data @ [v])))"

text \<open>\<open>db\<close> gives \<open>klass.objects\<close> for each product class; \<open>standart_value\<close> is still 0 in the
  second loop.\<close>

definition grahp_specification_data ::
  "(klass \<Rightarrow> row list) \<Rightarrow> int list \<Rightarrow> int option \<Rightarrow> (int \<times> rat) list
     \<Rightarrow> error + rat list option"
where
  "grahp_specification_data db dates currency kwargs =
     (if length dates < 2 then Inr None
      else
        let calculating_field = currency_field currency;
            standart_value = 0
        in case cache_loop db dates kwargs [] of
             Inl e \<Rightarrow> Inl e
           | Inr cached_data \<Rightarrow>
               map_sum id Some
                 (spec_dates_loop calculating_field kwargs cached_data standart_value dates []))"

section \<open>CalculateMixin.get_data_table\<close>

record data_table =
  current :: rat
  month_ago :: rat
  start_year :: rat
  year_ago :: rat

text \<open>\<open>getattr(x, name)\<close> where \<open>x\<close> may be None: None has no attribute of a record.\<close>

definition getattr_opt :: "row option \<Rightarrow> string \<Rightarrow> error + rat" where
  "getattr_opt x name =
     (case x of None \<Rightarrow> Inl AttributeError | Some r \<Rightarrow> getattr r (Some name))"

text \<open>One entry of the table: \<open>((today_data - ref) / ref) * 100\<close>.\<close>

definition percent_change :: "rat \<Rightarrow> rat \<Rightarrow> error + rat" where
  "percent_change today_data ref =
     (case py_div (today_data - ref) ref of Inl e \<Rightarrow> Inl e | Inr q \<Rightarrow> Inr (q * 100))"

text \<open>\<open>today\<close> is \<open>datetime.date.today()\<close> and \<open>objects\<close> is \<open>cls.objects\<close>.\<close>

definition get_data_table :: "int \<Rightarrow> row list \<Rightarrow> string \<Rightarrow> error + data_table" where
  "get_data_table today objects price_field =
     (let today_data = qs_last (filter (\<lambda>r. date r \<le> today) objects) in
      case sub_relativedelta today 0 1 of
        Inl e \<Rightarrow> Inl e
      | Inr month_ago_date \<Rightarrow>
     (let month_ago_data = qs_last (filter (\<lambda>r. date r \<le> month_ago_date) objects);
          start_year_data =
            qs_first (filter (\<lambda>r. year_of today \<le> year_of (date r)) objects);
          start_year_data =
            (if start_year_data = None
             then qs_last (filter (\<lambda>r. year_of (date r) \<le> year_of today) objects)
             else start_year_data)
      in
      case sub_relativedelta today 1 0 of
        Inl e \<Rightarrow> Inl e
      | Inr year_ago_date \<Rightarrow>
     (let year_ago_data = qs_last (filter (\<lambda>r. date r \<le> year_ago_date) objects) in
      case getattr_opt today_data price_field of
        Inl e \<Rightarrow> Inl e
      | Inr today_data \<Rightarrow>
     (case getattr_opt month_ago_data price_field of
        Inl e \<Rightarrow> Inl e
      | Inr month_ago_data \<Rightarrow>
     (case getattr_opt start_year_data price_field of
        Inl e \<Rightarrow> Inl e
      | Inr start_year_data \<Rightarrow>
     (case getattr_opt year_ago_data price_field of
        Inl e \<Rightarrow> Inl e
      | Inr year_ago_data \<Rightarrow>
     (case percent_change today_data month_ago_data of
        Inl e \<Rightarrow> Inl e
      | Inr m \<Rightarrow>
     (case percent_change today_data start_year_data of
        Inl e \<Rightarrow> Inl e
      | Inr s \<Rightarrow>
     (case percent_change today_data year_ago_data of
        Inl e \<Rightarrow> Inl e
      | Inr y \<Rightarrow>
          Inr \<lparr>current = today_data, month_ago = m, start_year = s, year_ago = y\<rparr>)))))))))"

section \<open>CSVFile.get_specification_percent\<close>

definition FILE_TYPES :: "(int \<times> string) list" where
  "FILE_TYPES =
     [(TYPE_INDEX, ''Composite index''),
      (TYPE_SHEET, ''Sheet g/p''),
      (TYPE_BALKA, ''Beam''),
      (TYPE_SCHVELLER, ''Channel''),
      (TYPE_UGOLOK, ''Corner''),
      (TYPE_PROFIL_TRUBA, ''Profile pipe''),
      (TYPE_KRUGLAYA_TRUBA, ''Round tube''),
      (TYPE_FINAL_METHOD, ''Indicator by final method''),
      (TYPE_EXCHANGE_RATES, ''Exchange rates''),
      (TYPE_SHARE_SPECIFICATIONS, ''Specification shares'')]"

text \<open>The dictionary of \<open>get_graph_names\<close>: a later pair of \<open>FILE_TYPES\<close> replaces an earlier
  one of the same code.\<close>

definition get_graph_names :: "int \<Rightarrow> string option" where
  "get_graph_names = map_of (rev FILE_TYPES)"

text \<open>\<open>'{}'.format(n)\<close> for an integer: its decimal digits.\<close>

fun str_of_nat :: "nat \<Rightarrow> string" where
  "str_of_nat n =
     (if n < 10 then [''0123456789'' ! n]
      else str_of_nat (n div 10) @ [''0123456789'' ! (n mod 10)])"

definition format_int :: "int \<Rightarrow> string" where
  "format_int i = (if i < 0 then ''-'' @ str_of_nat (nat (- i)) else str_of_nat (nat i))"

record spec_entry =
  spec_title :: string
  spec_value :: int

text \<open>One item of the returned dictionary; \<open>names_dict[code]\<close> raises KeyError for a code
  without a name.\<close>

definition percent_item :: "int \<Rightarrow> int \<Rightarrow> error + (string \<times> spec_entry)" where
  "percent_item code v =
     (case get_graph_names code of
        None \<Rightarrow> Inl KeyError
      | Some t \<Rightarrow> Inr (format_int code, \<lparr>spec_title = t, spec_value = v\<rparr>))"

fun collect_items :: "(error + 'a) list \<Rightarrow> error + 'a list" where
  "collect_items [] = Inr []"
| "collect_items (Inl e # xs) = Inl e"
| "collect_items (Inr x # xs) =
     (case collect_items xs of Inl e \<Rightarrow> Inl e | Inr ys \<Rightarrow> Inr (x # ys))"

text \<open>The returned dictionary, as the list of its items in order.\<close>

definition get_specification_percent :: "error + (string \<times> spec_entry) list" where
  "get_specification_percent =
     collect_items
       [percent_item TYPE_SHEET 60,
        percent_item TYPE_BALKA 10,
        percent_item TYPE_SCHVELLER 10,
        percent_item TYPE_UGOLOK 10,
        percent_item TYPE_PROFIL_TRUBA 5,
        percent_item TYPE_KRUGLAYA_TRUBA 5]"

section \<open>Notions used in the statements\<close>

text \<open>
  The store keeps at most one record of a class per date, and the statements below are
  about a manager that yields the records in ascending order of date: then the last
  record of a queryset is its most recent one and the first its earliest.
\<close>

definition date_ordered :: "row list \<Rightarrow> bool" where
  "date_ordered objects = sorted_wrt (\<lambda>a b. date a < date b) objects"

text \<open>The value of attribute \<open>f\<close> of a record that has it.\<close>

definition value_of :: "string \<Rightarrow> row \<Rightarrow> rat" where
  "value_of f r = (case attrs r f of Some v \<Rightarrow> v | None \<Rightarrow> 0)"

text \<open>The step value of one date: the record of exactly that date in \<open>db\<close>, else \<open>sv\<close>.\<close>

definition step_value_of :: "string \<Rightarrow> row list \<Rightarrow> rat \<Rightarrow> int \<Rightarrow> rat" where
  "step_value_of f db sv d =
     (case qs_first (filter (\<lambda>r. date r = d) db) of Some r \<Rightarrow> value_of f r | None \<Rightarrow> sv)"

subsection \<open>Concrete stores and periods\<close>

text \<open>The period 2024-01-01 .. 2024-01-03.\<close>

definition january_dates :: "int list" where
  "january_dates = [ymd2ord 2024 1 1, ymd2ord 2024 1 2, ymd2ord 2024 1 3]"

text \<open>Beam records \<open>{01-01: 100, 01-03: 110}\<close>, in hryvnas.\<close>

definition beam_rows :: "row list" where
  "beam_rows =
     [\<lparr>date = ymd2ord 2024 1 1, attrs = [''avg_uah'' \<mapsto> 100]\<rparr>,
      \<lparr>date = ymd2ord 2024 1 3, attrs = [''avg_uah'' \<mapsto> 110]\<rparr>]"

text \<open>Records whose baseline is 0: \<open>{01-01: 0, 01-03: 5}\<close>.\<close>

definition zero_rows :: "row list" where
  "zero_rows =
     [\<lparr>date = ymd2ord 2024 1 1, attrs = [''avg_uah'' \<mapsto> 0]\<rparr>,
      \<lparr>date = ymd2ord 2024 1 3, attrs = [''avg_uah'' \<mapsto> 5]\<rparr>]"

text \<open>Composite-index records with a value per currency.\<close>

definition index_rows :: "row list" where
  "index_rows =
     [\<lparr>date = ymd2ord 2024 1 1, attrs = [''uah'' \<mapsto> 100, ''usd'' \<mapsto> 4, ''euro'' \<mapsto> 3]\<rparr>,
      \<lparr>date = ymd2ord 2024 1 2, attrs = [''uah'' \<mapsto> 110, ''usd'' \<mapsto> 4, ''euro'' \<mapsto> 3]\<rparr>]"

text \<open>Composite-index records that agree in hryvnas and dollars and differ in euros.\<close>

definition parity_rows :: "row list" where
  "parity_rows =
     [\<lparr>date = ymd2ord 2024 1 1, attrs = [''uah'' \<mapsto> 100, ''usd'' \<mapsto> 100, ''euro'' \<mapsto> 4]\<rparr>,
      \<lparr>date = ymd2ord 2024 1 2, attrs = [''uah'' \<mapsto> 110, ''usd'' \<mapsto> 110, ''euro'' \<mapsto> 2]\<rparr>]"

text \<open>
  The store of the composite example: beam 50 then 60, corner 25 on every date, and the
  specification \<open>{beam: 2, corner: 1}\<close>.
\<close>

definition composite_db :: "klass \<Rightarrow> row list" where
  "composite_db =
     (\<lambda>k. [])
       (Balka :=
          [\<lparr>date = ymd2ord 2024 1 1, attrs = [''avg_uah'' \<mapsto> 50]\<rparr>,
           \<lparr>date = ymd2ord 2024 1 2, attrs = [''avg_uah'' \<mapsto> 60]\<rparr>,
           \<lparr>date = ymd2ord 2024 1 3, attrs = [''avg_uah'' \<mapsto> 60]\<rparr>],
        Ugolok :=
          [\<lparr>date = ymd2ord 2024 1 1, attrs = [''avg_uah'' \<mapsto> 25]\<rparr>,
           \<lparr>date = ymd2ord 2024 1 2, attrs = [''avg_uah'' \<mapsto> 25]\<rparr>,
           \<lparr>date = ymd2ord 2024 1 3, attrs = [''avg_uah'' \<mapsto> 25]\<rparr>])"

definition composite_kwargs :: "(int \<times> rat) list" where
  "composite_kwargs = [(TYPE_BALKA, 2), (TYPE_UGOLOK, 1)]"

text \<open>A store with beam records only, and one whose first beam record is 0.\<close>

definition beam_db :: "klass \<Rightarrow> row list" where
  "beam_db = (\<lambda>k. []) (Balka := beam_rows)"

definition zero_db :: "klass \<Rightarrow> row list" where
  "zero_db = (\<lambda>k. []) (Balka := zero_rows)"

text \<open>
  Records of one class for the table, read on 2024-06-15: a year of history, and a
  history with no record in 2024 but one dated 2025.
\<close>

definition table_rows :: "row list" where
  "table_rows =
     [\<lparr>date = ymd2ord 2023 5 1, attrs = [''size_20'' \<mapsto> 80]\<rparr>,
      \<lparr>date = ymd2ord 2024 1 10, attrs = [''size_20'' \<mapsto> 90]\<rparr>,
      \<lparr>date = ymd2ord 2024 5 10, attrs = [''size_20'' \<mapsto> 100]\<rparr>,
      \<lparr>date = ymd2ord 2024 6 10, attrs = [''size_20'' \<mapsto> 120]\<rparr>]"

definition future_rows :: "row list" where
  "future_rows =
     [\<lparr>date = ymd2ord 2023 1 1, attrs = [''size_20'' \<mapsto> 80]\<rparr>,
      \<lparr>date = ymd2ord 2023 12 1, attrs = [''size_20'' \<mapsto> 100]\<rparr>,
      \<lparr>date = ymd2ord 2025 1 10, attrs = [''size_20'' \<mapsto> 200]\<rparr>]"

definition recent_rows :: "row list" where
  "recent_rows =
     [\<lparr>date = ymd2ord 2024 1 10, attrs = [''size_20'' \<mapsto> 90]\<rparr>,
      \<lparr>date = ymd2ord 2024 6 10, attrs = [''size_20'' \<mapsto> 120]\<rparr>]"

section \<open>Properties of get_dates\<close>

declare dates_loop.simps [simp del]

lemma dates_loop_upto:
  "0 < date_from \<Longrightarrow> date_to < MAXORDINAL \<Longrightarrow>
   dates_loop date_from date_to dates = Inr (dates @ [date_from..date_to])"
proof (induction date_from date_to dates rule: dates_loop.induct)
  case (1 date_from date_to dates)
  show ?case
  proof (cases "date_from \<le> date_to")
    case True
    with "1.prems" have step: "date_add_days date_from 1 = Inr (date_from + 1)"
      by (simp add: date_add_days_def)
    have "dates_loop (date_from + 1) date_to (dates @ [date_from])
            = Inr ((dates @ [date_from]) @ [date_from + 1..date_to])"
      using "1.IH" [OF True step] "1.prems" by simp
    with True step show ?thesis
      by (subst dates_loop.simps) (simp add: upto_rec1)
  next
    case False
    then show ?thesis
      by (subst dates_loop.simps) simp
  qed
qed

lemma dates_loop_empty:
  "date_to < date_from \<Longrightarrow> dates_loop date_from date_to dates = Inr dates"
  by (subst dates_loop.simps) simp

lemma hd_upto_int: "a \<le> b \<Longrightarrow> hd [a..b] = a"
  by (simp add: upto_rec1)

lemma last_upto_int: "a \<le> b \<Longrightarrow> last [a..b] = b"
  by (simp add: upto_rec2)

text \<open>
  The loop stops with OverflowError when it has to step past the last date there is:
  the increment after appending 9999-12-31 has no result.
\<close>

lemma dates_loop_overflow:
  "date_from \<le> MAXORDINAL \<Longrightarrow> dates_loop date_from MAXORDINAL dates = Inl OverflowError"
proof (induction date_from MAXORDINAL dates rule: dates_loop.induct)
  case (1 date_from dates)
  show ?case
  proof (cases "date_from = MAXORDINAL")
    case True
    then show ?thesis
      by (subst dates_loop.simps) (simp add: date_add_days_def)
  next
    case False
    with "1.prems" have lt: "date_from < MAXORDINAL" by simp
    show ?thesis
    proof (cases "0 < date_from + 1")
      case True
      with lt have step: "date_add_days date_from 1 = Inr (date_from + 1)"
        by (simp add: date_add_days_def)
      from "1.prems" have le: "date_from \<le> MAXORDINAL" .
      have "dates_loop (date_from + 1) MAXORDINAL (dates @ [date_from]) = Inl OverflowError"
        using "1.hyps" [OF le step] lt by simp
      with le step show ?thesis
        by (subst dates_loop.simps) simp
    next
      case False
      with lt show ?thesis
        by (subst dates_loop.simps) (simp add: date_add_days_def)
    qed
  qed
qed

text \<open>
  C4, as the code has it. \<open>df\<close> and \<open>dt\<close> are the bounds in force: \<open>dt\<close> is \<open>date_to\<close>, or
  today when \<open>date_to\<close> is absent, and \<open>df\<close> is \<open>date_from\<close>, or \<open>dt\<close> minus 7 days when
  \<open>date_from\<close> is absent. When both are dates and \<open>dt\<close> is before 9999-12-31 (or the period
  is empty), \<open>get_dates\<close> returns every date from \<open>df\<close> to \<open>dt\<close> inclusive in ascending
  one-day steps: the list has \<open>(dt - df).days + 1\<close> elements, its \<open>i\<close>-th element is \<open>df\<close>
  plus \<open>i\<close> days, it starts at \<open>df\<close> and ends at \<open>dt\<close>, and it is empty when \<open>df\<close> is after
  \<open>dt\<close>.
\<close>

theorem get_dates_range:
  assumes "valid_date df" and "valid_date dt"
    and "dt < MAXORDINAL \<or> dt < df"
    and "date_to = None \<and> dt = today \<or> date_to = Some (DateObj dt)"
    and "date_from = None \<and> df = dt - 7 \<or> date_from = Some (DateObj df)"
  shows "get_dates strptime today date_from date_to = Inr [df..dt]
       \<and> length [df..dt] = nat (dt - df + 1)
       \<and> (\<forall>i<length [df..dt]. [df..dt] ! i = df + int i)
       \<and> (df \<le> dt \<longrightarrow> hd [df..dt] = df \<and> last [df..dt] = dt)
       \<and> (dt < df \<longrightarrow> [df..dt] = [])"
proof -
  have to: "to_date strptime date_to = Inr (Some dt)
            \<or> (to_date strptime date_to = Inr None \<and> dt = today)"
    using assms(4) by auto
  have loop: "dates_loop df dt [] = Inr [df..dt]"
    using assms(1,3) dates_loop_upto [of df dt "[]"] dates_loop_empty [of dt df "[]"]
    by (auto simp: valid_date_def)
  have add: "date_add_days dt (- DEFAULT_DATE_DELTA_DAYS) = Inr df" if "df = dt - 7"
    using that assms(1,2)
    by (simp add: date_add_days_def DEFAULT_DATE_DELTA_DAYS_def valid_date_def)
  have "get_dates strptime today date_from date_to = Inr [df..dt]"
    using to assms(5) loop add by (auto simp: get_dates_def)
  moreover have "df \<le> dt \<longrightarrow> hd [df..dt] = df \<and> last [df..dt] = dt"
    by (simp add: hd_upto_int last_upto_int)
  ultimately show ?thesis by simp
qed

text \<open>On 2024-06-15 with no argument: the eight dates from 2024-06-08 to 2024-06-15.\<close>

theorem get_dates_range_witness:
  "valid_date 739045 \<and> valid_date 739052
   \<and> get_dates strptime_reject 739052 None None = Inr [739045..739052]
   \<and> length [739045..739052::int] = 8"
proof -
  have a: "valid_date 739045" and b: "valid_date 739052"
    and c: "739052 < MAXORDINAL \<or> (739052::int) < 739045"
    by (simp_all add: valid_date_def MAXORDINAL_def)
  have d: "(None::date_arg option) = None \<and> (739052::int) = 739052
           \<or> None = Some (DateObj 739052)"
    and e: "(None::date_arg option) = None \<and> (739045::int) = 739052 - 7
            \<or> None = Some (DateObj 739045)"
    by simp_all
  show ?thesis
    using a b get_dates_range [OF a b c d e, of strptime_reject] by simp
qed

text \<open>
  C4 as stated fails at the last date: for \<open>date_from = date_to = 9999-12-31\<close> the claim
  gives the one-element list, and the code raises OverflowError.
\<close>

theorem get_dates_range_counterexample:
  "get_dates strptime_reject 739052 (Some (DateObj 3652059)) (Some (DateObj 3652059))
     = Inl OverflowError"
  by (simp add: get_dates_def dates_loop.simps date_add_days_def MAXORDINAL_def)

section \<open>Querysets in date order\<close>

lemma qs_last_None: "qs_last (filter P xs) = None \<longleftrightarrow> (\<forall>r\<in>set xs. \<not> P r)"
  by (auto simp: qs_last_def filter_empty_conv)

lemma qs_first_None: "qs_first (filter P xs) = None \<longleftrightarrow> (\<forall>r\<in>set xs. \<not> P r)"
proof -
  have "qs_first (filter P xs) = None \<longleftrightarrow> filter P xs = []"
    by (simp add: qs_first_def split: list.splits)
  then show ?thesis by (simp add: filter_empty_conv)
qed

lemma qs_first_in: "qs_first (filter P xs) = Some r \<Longrightarrow> r \<in> set xs \<and> P r"
proof -
  assume "qs_first (filter P xs) = Some r"
  then obtain ys where "filter P xs = r # ys"
    by (auto simp: qs_first_def split: list.splits)
  then have "r \<in> set (filter P xs)" by simp
  then show ?thesis by simp
qed

text \<open>In date order the last record of a filter is the most recent one that passes it.\<close>

lemma qs_last_latest:
  "date_ordered xs \<Longrightarrow> b \<in> set xs \<Longrightarrow> P b \<Longrightarrow> (\<forall>r\<in>set xs. P r \<longrightarrow> date r \<le> date b)
     \<Longrightarrow> qs_last (filter P xs) = Some b"
proof (induction xs)
  case Nil
  then show ?case by simp
next
  case (Cons a xs)
  show ?case
  proof (cases "b \<in> set xs")
    case True
    from Cons.prems have "date_ordered xs" and "\<forall>r\<in>set xs. P r \<longrightarrow> date r \<le> date b"
      by (simp_all add: date_ordered_def)
    with Cons.IH True Cons.prems(3) have "qs_last (filter P xs) = Some b" by blast
    then show ?thesis
      by (auto simp: qs_last_def split: if_splits)
  next
    case False
    with Cons.prems have ba: "b = a" by simp
    have "\<forall>r\<in>set xs. \<not> P r"
    proof
      fix r assume r: "r \<in> set xs"
      with Cons.prems(1) have "date a < date r" by (simp add: date_ordered_def)
      moreover from Cons.prems(4) r have "P r \<longrightarrow> date r \<le> date b" by simp
      ultimately show "\<not> P r" using ba by auto
    qed
    then have "filter P xs = []" by (simp add: filter_empty_conv)
    with ba Cons.prems(3) show ?thesis by (simp add: qs_last_def)
  qed
qed

text \<open>And the first record is the earliest one that passes it.\<close>

lemma qs_first_earliest:
  "date_ordered xs \<Longrightarrow> b \<in> set xs \<Longrightarrow> P b \<Longrightarrow> (\<forall>r\<in>set xs. P r \<longrightarrow> date b \<le> date r)
     \<Longrightarrow> qs_first (filter P xs) = Some b"
proof (induction xs)
  case Nil
  then show ?case by simp
next
  case (Cons a xs)
  show ?case
  proof (cases "b = a")
    case True
    with Cons.prems(3) show ?thesis by (simp add: qs_first_def)
  next
    case False
    with Cons.prems have b: "b \<in> set xs" by simp
    with Cons.prems(1) have "date a < date b" by (simp add: date_ordered_def)
    with Cons.prems(4) have na: "\<not> P a" by auto
    from Cons.prems have "date_ordered xs" and "\<forall>r\<in>set xs. P r \<longrightarrow> date b \<le> date r"
      by (simp_all add: date_ordered_def)
    with Cons.IH b Cons.prems(3) have "qs_first (filter P xs) = Some b" by blast
    with na show ?thesis by simp
  qed
qed

lemma qs_first_exact:
  assumes "date_ordered xs" and "r \<in> set xs" and "Q r"
  shows "qs_first (filter (\<lambda>r'. date r' = date r) (filter Q xs)) = Some r"
proof -
  have "qs_first (filter (\<lambda>r'. Q r' \<and> date r' = date r) xs) = Some r"
    using assms by (intro qs_first_earliest) auto
  then show ?thesis by (simp add: conj_commute)
qed

lemma getattr_value_of: "attrs r f \<noteq> None \<Longrightarrow> getattr r (Some f) = Inr (value_of f r)"
  by (auto simp: getattr_def value_of_def)

lemma step_value_exact:
  assumes "date_ordered objects" and "r \<in> set objects" and "Q r"
  shows "step_value_of f (filter Q objects) sv (date r) = value_of f r"
  using qs_first_exact [of objects r Q] assms by (simp add: step_value_of_def)

lemma step_value_absent:
  assumes "\<forall>r\<in>set objects. date r \<noteq> d"
  shows "step_value_of f (filter Q objects) sv d = sv"
proof -
  have "qs_first (filter (\<lambda>r. date r = d) (filter Q objects)) = None"
    using assms by (subst qs_first_None) simp
  then show ?thesis by (simp add: step_value_of_def)
qed

text \<open>The dates and stores of the examples, evaluated.\<close>

lemmas calendar_defs =
  ymd2ord_def days_before_year_def days_before_month_def DAYS_BEFORE_MONTH_def
  DAYS_IN_MONTH_def days_in_month_def is_leap_def

lemma january_dates_eval: "january_dates = [738886, 738887, 738888]"
  by (simp add: january_dates_def calendar_defs)

lemma beam_rows_eval:
  "beam_rows = [\<lparr>date = 738886, attrs = [''avg_uah'' \<mapsto> 100]\<rparr>,
                \<lparr>date = 738888, attrs = [''avg_uah'' \<mapsto> 110]\<rparr>]"
  by (simp add: beam_rows_def calendar_defs)

lemma zero_rows_eval:
  "zero_rows = [\<lparr>date = 738886, attrs = [''avg_uah'' \<mapsto> 0]\<rparr>,
                \<lparr>date = 738888, attrs = [''avg_uah'' \<mapsto> 5]\<rparr>]"
  by (simp add: zero_rows_def calendar_defs)

lemma index_rows_eval:
  "index_rows =
     [\<lparr>date = 738886, attrs = [''uah'' \<mapsto> 100, ''usd'' \<mapsto> 4, ''euro'' \<mapsto> 3]\<rparr>,
      \<lparr>date = 738887, attrs = [''uah'' \<mapsto> 110, ''usd'' \<mapsto> 4, ''euro'' \<mapsto> 3]\<rparr>]"
  by (simp add: index_rows_def calendar_defs)

lemmas charts_defs =
  get_data_charts_def charts_field_def currency_field_def CURRENCY_FIELDS_get_def
  UAH_def USD_def EURO_def qs_first_def qs_last_def getattr_def

section \<open>Properties of get_data_charts\<close>

lemma charts_loop_map:
  assumes "\<forall>r\<in>set db. attrs r f \<noteq> None"
  shows "charts_loop db (Some f) sv dates acc =
           Inr (acc @ map (\<lambda>d. if sv = 0 then step_value_of f db sv d
                                else step_value_of f db sv d * 100 / sv) dates)"
proof (induction dates arbitrary: acc)
  case Nil
  then show ?case by simp
next
  case (Cons d dates)
  have step: "(case qs_first (filter (\<lambda>r. date r = d) db) of
                 Some step_row \<Rightarrow> getattr step_row (Some f) | None \<Rightarrow> Inr sv)
              = Inr (step_value_of f db sv d)"
  proof (cases "qs_first (filter (\<lambda>r. date r = d) db)")
    case None
    then show ?thesis by (simp add: step_value_of_def)
  next
    case (Some r)
    then have "r \<in> set db" using qs_first_in by blast
    with assms have "getattr r (Some f) = Inr (value_of f r)"
      by (simp add: getattr_value_of)
    with Some show ?thesis by (simp add: step_value_of_def)
  qed
  show ?case
    by (simp only: charts_loop.simps step sum.case Cons.IH) simp
qed

lemma get_data_charts_no_baseline:
  assumes "2 \<le> length dates"
    and "charts_field cls_name currency = Inr cf"
    and "\<forall>r\<in>set objects. hd dates < date r"
  shows "get_data_charts cls_name objects dates currency = Inr None"
proof -
  have "qs_last (filter (\<lambda>r. date r \<le> hd dates) objects) = None"
    using assms(3) by (auto simp: qs_last_None)
  with assms(1,2) show ?thesis by (simp add: get_data_charts_def)
qed

text \<open>The whole result, for a baseline record \<open>b\<close>: the most recent one at or before
  \<open>dates[0]\<close>.\<close>

lemma get_data_charts_core:
  assumes "2 \<le> length dates"
    and "date_ordered objects"
    and "charts_field cls_name currency = Inr (Some f)"
    and "\<forall>r\<in>set objects. attrs r f \<noteq> None"
    and "b \<in> set objects" and "date b \<le> hd dates"
    and "\<forall>r\<in>set objects. date r \<le> hd dates \<longrightarrow> date r \<le> date b"
  shows "get_data_charts cls_name objects dates currency =
           Inr (Some (map (\<lambda>d.
             if value_of f b = 0
             then step_value_of f (filter (\<lambda>r. hd dates \<le> date r \<and> date r \<le> last dates) objects)
                    (value_of f b) d
             else step_value_of f (filter (\<lambda>r. hd dates \<le> date r \<and> date r \<le> last dates) objects)
                    (value_of f b) d * 100 / value_of f b) dates))"
proof -
  have base: "qs_last (filter (\<lambda>r. date r \<le> hd dates) objects) = Some b"
    using assms(2,5,6,7) by (intro qs_last_latest) auto
  have gb: "getattr b (Some f) = Inr (value_of f b)"
    using assms(4,5) by (simp add: getattr_value_of)
  have "\<forall>r\<in>set (filter (\<lambda>r. hd dates \<le> date r \<and> date r \<le> last dates) objects).
          attrs r f \<noteq> None"
    using assms(4) by simp
  note loop = charts_loop_map [OF this, of "value_of f b" dates "[]"]
  from assms(1) have "\<not> length dates < 2" by simp
  then show ?thesis
    by (simp only: get_data_charts_def if_False assms(3) sum.case base option.case gb loop)
       simp
qed

text \<open>
  C3. Let \<open>dates\<close> hold at least two dates, the first being its earliest and the last its
  latest, and let every record carry the attribute \<open>f\<close> that the class and the currency
  select. If no record is dated at or before \<open>dates[0]\<close>, \<open>get_data_charts\<close> returns null.
  Otherwise, with \<open>b\<close> the most recent record at or before \<open>dates[0]\<close> and its value not 0,
  it returns a list as long as \<open>dates\<close> whose \<open>i\<close>-th element is the value of the record
  dated \<open>dates[i]\<close> times 100 over the value of \<open>b\<close> when there is such a record, and the
  value of \<open>b\<close> times 100 over itself when there is none.
\<close>

theorem get_data_charts_normalises:
  assumes "2 \<le> length dates"
    and "\<forall>d\<in>set dates. hd dates \<le> d \<and> d \<le> last dates"
    and "date_ordered objects"
    and "charts_field cls_name currency = Inr (Some f)"
    and "\<forall>r\<in>set objects. attrs r f \<noteq> None"
  shows "((\<forall>r\<in>set objects. hd dates < date r) \<longrightarrow>
            get_data_charts cls_name objects dates currency = Inr None)
       \<and> (\<forall>b\<in>set objects.
            date b \<le> hd dates \<and> (\<forall>r\<in>set objects. date r \<le> hd dates \<longrightarrow> date r \<le> date b)
              \<and> value_of f b \<noteq> 0 \<longrightarrow>
            (\<exists>out. get_data_charts cls_name objects dates currency = Inr (Some out)
               \<and> length out = length dates
               \<and> (\<forall>i<length dates.
                     (\<forall>r\<in>set objects. date r = dates ! i \<longrightarrow>
                        out ! i = value_of f r * 100 / value_of f b)
                   \<and> ((\<forall>r\<in>set objects. date r \<noteq> dates ! i) \<longrightarrow>
                        out ! i = value_of f b * 100 / value_of f b))))"
proof (intro conjI impI ballI)
  assume "\<forall>r\<in>set objects. hd dates < date r"
  with assms(1,4) show "get_data_charts cls_name objects dates currency = Inr None"
    by (rule get_data_charts_no_baseline)
next
  fix b
  assume b: "b \<in> set objects"
    and h: "date b \<le> hd dates \<and> (\<forall>r\<in>set objects. date r \<le> hd dates \<longrightarrow> date r \<le> date b)
              \<and> value_of f b \<noteq> 0"
  let ?db = "filter (\<lambda>r. hd dates \<le> date r \<and> date r \<le> last dates) objects"
  let ?out = "map (\<lambda>d. step_value_of f ?db (value_of f b) d * 100 / value_of f b) dates"
  have res: "get_data_charts cls_name objects dates currency = Inr (Some ?out)"
    using get_data_charts_core [OF assms(1,3,4,5) b] h by simp
  have "\<forall>i<length dates.
          (\<forall>r\<in>set objects. date r = dates ! i \<longrightarrow> ?out ! i = value_of f r * 100 / value_of f b)
        \<and> ((\<forall>r\<in>set objects. date r \<noteq> dates ! i) \<longrightarrow> ?out ! i = value_of f b * 100 / value_of f b)"
  proof (intro allI impI conjI ballI)
    fix i r
    assume i: "i < length dates" and r: "r \<in> set objects" and d: "date r = dates ! i"
    from i assms(2) have "hd dates \<le> dates ! i \<and> dates ! i \<le> last dates" by simp
    with d have "hd dates \<le> date r \<and> date r \<le> last dates" by simp
    with assms(3) r
    have "step_value_of f ?db (value_of f b) (date r) = value_of f r"
      by (intro step_value_exact) simp_all
    then have "step_value_of f ?db (value_of f b) (dates ! i) = value_of f r"
      using d by simp
    with i show "?out ! i = value_of f r * 100 / value_of f b" by simp
  next
    fix i
    assume i: "i < length dates" and "\<forall>r\<in>set objects. date r \<noteq> dates ! i"
    then have "step_value_of f ?db (value_of f b) (dates ! i) = value_of f b"
      by (simp add: step_value_absent)
    with i show "?out ! i = value_of f b * 100 / value_of f b" by simp
  qed
  with res show "\<exists>out. get_data_charts cls_name objects dates currency = Inr (Some out)
               \<and> length out = length dates
               \<and> (\<forall>i<length dates.
                     (\<forall>r\<in>set objects. date r = dates ! i \<longrightarrow>
                        out ! i = value_of f r * 100 / value_of f b)
                   \<and> ((\<forall>r\<in>set objects. date r \<noteq> dates ! i) \<longrightarrow>
                        out ! i = value_of f b * 100 / value_of f b))"
    by (intro exI [of _ ?out]) simp
qed

text \<open>
  The example of C3: on 2024-01-01 .. 2024-01-03 with the beam records
  \<open>{01-01: 100, 01-03: 110}\<close> the output is \<open>[100, 100, 110]\<close>.
\<close>

theorem get_data_charts_normalises_witness:
  "2 \<le> length january_dates \<and> date_ordered beam_rows
   \<and> charts_field ''Balka'' None = Inr (Some ''avg_uah'')
   \<and> get_data_charts ''Balka'' beam_rows january_dates None = Inr (Some [100, 100, 110])"
proof -
  have h1: "2 \<le> length january_dates"
    and h2: "\<forall>d\<in>set january_dates. hd january_dates \<le> d \<and> d \<le> last january_dates"
    by (simp_all add: january_dates_eval)
  have h3: "date_ordered beam_rows"
    by (simp add: beam_rows_eval date_ordered_def)
  have h4: "charts_field ''Balka'' None = Inr (Some ''avg_uah'')"
    by (simp add: charts_field_def currency_field_def)
  have h5: "\<forall>r\<in>set beam_rows. attrs r ''avg_uah'' \<noteq> None"
    by (simp add: beam_rows_eval)
  have res: "get_data_charts ''Balka'' beam_rows january_dates None
               = Inr (Some [100, 100, 110])"
    by (simp add: charts_defs january_dates_eval beam_rows_eval)
  show ?thesis
    using h1 h3 h4 res get_data_charts_normalises [OF h1 h2 h3 h4 h5] by simp
qed

text \<open>
  C8. With the same date list and store, when the value of the baseline record \<open>b\<close> (the
  most recent record at or before \<open>dates[0]\<close>) is exactly 0, \<open>get_data_charts\<close> raises
  nothing and returns one unscaled step value per date: the value of the record dated
  \<open>dates[i]\<close> when there is one, and the baseline 0 when there is none.
\<close>

theorem get_data_charts_zero_baseline:
  assumes "2 \<le> length dates"
    and "\<forall>d\<in>set dates. hd dates \<le> d \<and> d \<le> last dates"
    and "date_ordered objects"
    and "charts_field cls_name currency = Inr (Some f)"
    and "\<forall>r\<in>set objects. attrs r f \<noteq> None"
    and "b \<in> set objects" and "date b \<le> hd dates"
    and "\<forall>r\<in>set objects. date r \<le> hd dates \<longrightarrow> date r \<le> date b"
    and "value_of f b = 0"
  shows "\<exists>out. get_data_charts cls_name objects dates currency = Inr (Some out)
           \<and> length out = length dates
           \<and> (\<forall>i<length dates.
                 (\<forall>r\<in>set objects. date r = dates ! i \<longrightarrow> out ! i = value_of f r)
               \<and> ((\<forall>r\<in>set objects. date r \<noteq> dates ! i) \<longrightarrow> out ! i = 0))"
proof -
  let ?db = "filter (\<lambda>r. hd dates \<le> date r \<and> date r \<le> last dates) objects"
  let ?out = "map (\<lambda>d. step_value_of f ?db 0 d) dates"
  have res: "get_data_charts cls_name objects dates currency = Inr (Some ?out)"
    using get_data_charts_core [OF assms(1,3,4,5,6,7,8)] assms(9) by simp
  have "\<forall>i<length dates.
          (\<forall>r\<in>set objects. date r = dates ! i \<longrightarrow> ?out ! i = value_of f r)
        \<and> ((\<forall>r\<in>set objects. date r \<noteq> dates ! i) \<longrightarrow> ?out ! i = 0)"
  proof (intro allI impI conjI ballI)
    fix i r
    assume i: "i < length dates" and r: "r \<in> set objects" and d: "date r = dates ! i"
    from i assms(2) have "hd dates \<le> dates ! i \<and> dates ! i \<le> last dates" by simp
    with d have "hd dates \<le> date r \<and> date r \<le> last dates" by simp
    with assms(3) r
    have "step_value_of f ?db 0 (date r) = value_of f r"
      by (intro step_value_exact) simp_all
    then have "step_value_of f ?db 0 (dates ! i) = value_of f r"
      using d by simp
    with i show "?out ! i = value_of f r" by simp
  next
    fix i
    assume i: "i < length dates" and "\<forall>r\<in>set objects. date r \<noteq> dates ! i"
    then have "step_value_of f ?db 0 (dates ! i) = 0"
      by (simp add: step_value_absent)
    with i show "?out ! i = 0" by simp
  qed
  with res show ?thesis
    by (intro exI [of _ ?out]) simp
qed

text \<open>Records \<open>{01-01: 0, 01-03: 5}\<close> over 2024-01-01 .. 2024-01-03 give \<open>[0, 0, 5]\<close>.\<close>

theorem get_data_charts_zero_baseline_witness:
  "2 \<le> length january_dates \<and> date_ordered zero_rows
   \<and> value_of ''avg_uah'' (hd zero_rows) = 0
   \<and> get_data_charts ''Balka'' zero_rows january_dates (Some UAH) = Inr (Some [0, 0, 5])"
proof -
  have h1: "2 \<le> length january_dates"
    and h2: "\<forall>d\<in>set january_dates. hd january_dates \<le> d \<and> d \<le> last january_dates"
    by (simp_all add: january_dates_eval)
  have h3: "date_ordered zero_rows"
    by (simp add: zero_rows_eval date_ordered_def)
  have h4: "charts_field ''Balka'' (Some UAH) = Inr (Some ''avg_uah'')"
    by (simp add: charts_field_def currency_field_def CURRENCY_FIELDS_get_def UAH_def)
  have h5: "\<forall>r\<in>set zero_rows. attrs r ''avg_uah'' \<noteq> None"
    by (simp add: zero_rows_eval)
  have h6: "hd zero_rows \<in> set zero_rows"
    and h7: "date (hd zero_rows) \<le> hd january_dates"
    and h8: "\<forall>r\<in>set zero_rows. date r \<le> hd january_dates \<longrightarrow> date r \<le> date (hd zero_rows)"
    and h9: "value_of ''avg_uah'' (hd zero_rows) = 0"
    by (simp_all add: zero_rows_eval january_dates_eval value_of_def)
  have res: "get_data_charts ''Balka'' zero_rows january_dates (Some UAH)
               = Inr (Some [0, 0, 5])"
    by (simp add: charts_defs january_dates_eval zero_rows_eval)
  show ?thesis
    using h1 h3 h9 res
      get_data_charts_zero_baseline [OF h1 h2 h3 h4 h5 h6 h7 h8 h9]
    by simp
qed

subsection \<open>The currency and the composite index\<close>

lemma charts_loop_same_values:
  assumes "\<forall>r\<in>set db. attrs r f = attrs r g"
  shows "charts_loop db (Some f) sv dates acc = charts_loop db (Some g) sv dates acc"
proof (induction dates arbitrary: acc)
  case Nil
  then show ?case by simp
next
  case (Cons d dates)
  have step: "(case qs_first (filter (\<lambda>r. date r = d) db) of
                 Some step_row \<Rightarrow> getattr step_row (Some f) | None \<Rightarrow> Inr sv)
              = (case qs_first (filter (\<lambda>r. date r = d) db) of
                 Some step_row \<Rightarrow> getattr step_row (Some g) | None \<Rightarrow> Inr sv)"
  proof (cases "qs_first (filter (\<lambda>r. date r = d) db)")
    case None
    then show ?thesis by simp
  next
    case (Some r)
    then have "r \<in> set db" using qs_first_in by blast
    with assms have "getattr r (Some f) = getattr r (Some g)"
      by (simp add: getattr_def)
    with Some show ?thesis by simp
  qed
  show ?case
    by (simp only: charts_loop.simps step Cons.IH)
qed

lemma qs_last_in: "qs_last (filter P xs) = Some r \<Longrightarrow> r \<in> set xs \<and> P r"
proof -
  assume a: "qs_last (filter P xs) = Some r"
  then have ne: "filter P xs \<noteq> []" and "r = last (filter P xs)"
    by (auto simp: qs_last_def split: if_splits)
  then have "r \<in> set (filter P xs)"
    using last_in_set by metis
  then show ?thesis by simp
qed

text \<open>The attribute that each currency selects for the class CompositeIndex.\<close>

lemma charts_field_index:
  "charts_field ''CompositeIndex'' None = Inr (Some ''uah'')"
  "charts_field ''CompositeIndex'' (Some UAH) = Inr (Some ''uah'')"
  "charts_field ''CompositeIndex'' (Some USD) = Inr (Some ''usd'')"
  "charts_field ''CompositeIndex'' (Some EURO) = Inr (Some ''euro'')"
  by (simp_all add: charts_field_def currency_field_def CURRENCY_FIELDS_get_def
        UAH_def USD_def EURO_def)

text \<open>Two attributes with equal values in every record give the same result.\<close>

lemma get_data_charts_same_values:
  assumes "charts_field cls_name currency1 = Inr (Some f1)"
    and "charts_field cls_name currency2 = Inr (Some f2)"
    and "\<forall>r\<in>set objects. attrs r f1 = attrs r f2"
  shows "get_data_charts cls_name objects dates currency1
           = get_data_charts cls_name objects dates currency2"
proof (cases "qs_last (filter (\<lambda>r. date r \<le> hd dates) objects)")
  case None
  with assms(1,2) show ?thesis by (simp add: get_data_charts_def)
next
  case (Some b)
  then have "b \<in> set objects" using qs_last_in by blast
  with assms(3) have gb: "getattr b (Some f1) = getattr b (Some f2)"
    by (simp add: getattr_def)
  have "\<forall>r\<in>set (filter (\<lambda>r. hd dates \<le> date r \<and> date r \<le> last dates) objects).
          attrs r f1 = attrs r f2"
    using assms(3) by simp
  note loop = charts_loop_same_values [OF this]
  show ?thesis
    by (simp only: get_data_charts_def assms(1,2) sum.case Some option.case gb loop)
qed

text \<open>
  A run reads the records through their dates and the selected attribute only: a change
  \<open>g\<close> of the records that keeps both keeps the result.
\<close>

lemma qs_first_map: "qs_first (map g xs) = map_option g (qs_first xs)"
  by (cases xs) (simp_all add: qs_first_def)

lemma qs_last_map: "qs_last (map g xs) = map_option g (qs_last xs)"
  by (simp add: qs_last_def last_map)

lemma filter_date_map:
  assumes "\<forall>r. date (g r) = date r"
  shows "filter (\<lambda>r. P (date r)) (map g xs) = map g (filter (\<lambda>r. P (date r)) xs)"
  using assms by (induction xs) simp_all

lemma getattr_map:
  "attrs (g r) f = attrs r f \<Longrightarrow> getattr (g r) (Some f) = getattr r (Some f)"
  by (simp add: getattr_def)

lemma charts_loop_map_rows:
  assumes "\<forall>r. date (g r) = date r \<and> attrs (g r) f = attrs r f"
  shows "charts_loop (map g db) (Some f) sv dates acc = charts_loop db (Some f) sv dates acc"
proof (induction dates arbitrary: acc)
  case Nil
  then show ?case by simp
next
  case (Cons d dates)
  from assms have dg: "\<forall>r. date (g r) = date r" by simp
  have flt: "filter (\<lambda>r. date r = d) (map g db) = map g (filter (\<lambda>r. date r = d) db)"
    using filter_date_map [OF dg, of "\<lambda>x. x = d" db] by simp
  have step: "(case qs_first (filter (\<lambda>r. date r = d) (map g db)) of
                 Some step_row \<Rightarrow> getattr step_row (Some f) | None \<Rightarrow> Inr sv)
              = (case qs_first (filter (\<lambda>r. date r = d) db) of
                 Some step_row \<Rightarrow> getattr step_row (Some f) | None \<Rightarrow> Inr sv)"
    using assms
    by (cases "qs_first (filter (\<lambda>r. date r = d) db)")
       (simp_all add: flt qs_first_map getattr_map)
  show ?case
    by (simp only: charts_loop.simps step Cons.IH)
qed

lemma get_data_charts_map_rows:
  assumes "charts_field cls_name currency = Inr (Some f)"
    and "\<forall>r. date (g r) = date r \<and> attrs (g r) f = attrs r f"
  shows "get_data_charts cls_name (map g objects) dates currency
           = get_data_charts cls_name objects dates currency"
proof -
  from assms(2) have dg: "\<forall>r. date (g r) = date r" by simp
  have f1: "filter (\<lambda>r. date r \<le> hd dates) (map g objects)
              = map g (filter (\<lambda>r. date r \<le> hd dates) objects)"
    using filter_date_map [OF dg, of "\<lambda>x. x \<le> hd dates" objects] by simp
  have f2: "filter (\<lambda>r. hd dates \<le> date r \<and> date r \<le> last dates) (map g objects)
              = map g (filter (\<lambda>r. hd dates \<le> date r \<and> date r \<le> last dates) objects)"
    using filter_date_map [OF dg, of "\<lambda>x. hd dates \<le> x \<and> x \<le> last dates" objects] by simp
  show ?thesis
  proof (cases "qs_last (filter (\<lambda>r. date r \<le> hd dates) objects)")
    case None
    with assms(1) show ?thesis
      by (simp add: get_data_charts_def f1 qs_last_map)
  next
    case (Some b)
    from assms(2) have gb: "getattr (g b) (Some f) = getattr b (Some f)"
      by (simp add: getattr_map)
    have base: "qs_last (filter (\<lambda>r. date r \<le> hd dates) (map g objects)) = Some (g b)"
      by (simp add: f1 qs_last_map Some)
    note loop = charts_loop_map_rows [OF assms(2)]
    show ?thesis
      by (simp only: get_data_charts_def assms(1) sum.case base Some option.case gb f2 loop)
  qed
qed

text \<open>
  C9, as the code has it. For the class CompositeIndex the currency is not ignored: it
  selects the attribute read from the records, which is the currency's field without
  the prefix \<open>avg_\<close>: \<open>uah\<close> for the hryvna or no currency, \<open>usd\<close> for the dollar and
  \<open>euro\<close> for the euro. A run reads the records through that attribute and their dates
  only, and two runs over the same dates and the same stored records that differ only
  in the currency return equal results whenever every stored record has equal values
  in the two attributes selected.
\<close>

theorem get_data_charts_index_currency:
  assumes "(currency1, f1) \<in> set [(None, ''uah''), (Some UAH, ''uah''),
                                    (Some USD, ''usd''), (Some EURO, ''euro'')]"
    and "(currency2, f2) \<in> set [(None, ''uah''), (Some UAH, ''uah''),
                                  (Some USD, ''usd''), (Some EURO, ''euro'')]"
  shows "charts_field ''CompositeIndex'' currency1 = Inr (Some f1)
       \<and> charts_field ''CompositeIndex'' currency2 = Inr (Some f2)
       \<and> ((\<forall>r. date (g r) = date r \<and> attrs (g r) f1 = attrs r f1) \<longrightarrow>
            get_data_charts ''CompositeIndex'' (map g objects) dates currency1
              = get_data_charts ''CompositeIndex'' objects dates currency1)
       \<and> ((\<forall>r\<in>set objects. attrs r f1 = attrs r f2) \<longrightarrow>
            get_data_charts ''CompositeIndex'' objects dates currency1
              = get_data_charts ''CompositeIndex'' objects dates currency2)"
proof -
  have c1: "charts_field ''CompositeIndex'' currency1 = Inr (Some f1)"
    using assms(1) charts_field_index by auto
  have c2: "charts_field ''CompositeIndex'' currency2 = Inr (Some f2)"
    using assms(2) charts_field_index by auto
  from c1 c2 show ?thesis
    using get_data_charts_map_rows [OF c1, of g objects dates]
      get_data_charts_same_values [OF c1 c2, of objects dates]
    by blast
qed

lemma parity_rows_eval:
  "parity_rows =
     [\<lparr>date = 738886, attrs = [''uah'' \<mapsto> 100, ''usd'' \<mapsto> 100, ''euro'' \<mapsto> 4]\<rparr>,
      \<lparr>date = 738887, attrs = [''uah'' \<mapsto> 110, ''usd'' \<mapsto> 110, ''euro'' \<mapsto> 2]\<rparr>]"
  by (simp add: parity_rows_def calendar_defs)

text \<open>
  Composite-index records whose values in hryvnas and in dollars are equal, 100 then 110,
  and whose values in euros are 4 then 2: the hryvna and the dollar read different
  attributes and both give \<open>[100, 110, 100]\<close>, also when the euro values are set to 0,
  while the euro gives \<open>[100, 50, 100]\<close>.
\<close>

theorem get_data_charts_index_currency_witness:
  "charts_field ''CompositeIndex'' (Some UAH) = Inr (Some ''uah'')
   \<and> charts_field ''CompositeIndex'' (Some USD) = Inr (Some ''usd'')
   \<and> get_data_charts ''CompositeIndex'' parity_rows january_dates (Some UAH)
       = Inr (Some [100, 110, 100])
   \<and> get_data_charts ''CompositeIndex'' parity_rows january_dates (Some USD)
       = Inr (Some [100, 110, 100])
   \<and> get_data_charts ''CompositeIndex''
         (map (\<lambda>r. r\<lparr>attrs := (attrs r)(''euro'' \<mapsto> 0)\<rparr>) parity_rows) january_dates (Some UAH)
       = Inr (Some [100, 110, 100])
   \<and> get_data_charts ''CompositeIndex'' parity_rows january_dates (Some EURO)
       = Inr (Some [100, 50, 100])"
proof -
  have h1: "(Some UAH, ''uah'') \<in> set [(None, ''uah''), (Some UAH, ''uah''),
                                         (Some USD, ''usd''), (Some EURO, ''euro'')]"
    and h2: "(Some USD, ''usd'') \<in> set [(None, ''uah''), (Some UAH, ''uah''),
                                           (Some USD, ''usd''), (Some EURO, ''euro'')]"
    by simp_all
  have h3: "\<forall>r\<in>set parity_rows. attrs r ''uah'' = attrs r ''usd''"
    by (simp add: parity_rows_eval)
  have h4: "\<forall>r. date (r\<lparr>attrs := (attrs r)(''euro'' \<mapsto> 0)\<rparr>) = date r
              \<and> attrs (r\<lparr>attrs := (attrs r)(''euro'' \<mapsto> 0)\<rparr>) ''uah'' = attrs r ''uah''"
    by simp
  have uah: "get_data_charts ''CompositeIndex'' parity_rows january_dates (Some UAH)
               = Inr (Some [100, 110, 100])"
    and euro: "get_data_charts ''CompositeIndex'' parity_rows january_dates (Some EURO)
               = Inr (Some [100, 50, 100])"
    by (simp_all add: charts_defs january_dates_eval parity_rows_eval)
  note t = get_data_charts_index_currency [OF h1 h2,
      of "\<lambda>r. r\<lparr>attrs := (attrs r)(''euro'' \<mapsto> 0)\<rparr>" parity_rows january_dates]
  from t h3 have usd: "get_data_charts ''CompositeIndex'' parity_rows january_dates (Some UAH)
       = get_data_charts ''CompositeIndex'' parity_rows january_dates (Some USD)"
    by blast
  from t h4 have zeroed: "get_data_charts ''CompositeIndex''
         (map (\<lambda>r. r\<lparr>attrs := (attrs r)(''euro'' \<mapsto> 0)\<rparr>) parity_rows) january_dates (Some UAH)
       = get_data_charts ''CompositeIndex'' parity_rows january_dates (Some UAH)"
    by blast
  from t have fields: "charts_field ''CompositeIndex'' (Some UAH) = Inr (Some ''uah'')"
    "charts_field ''CompositeIndex'' (Some USD) = Inr (Some ''usd'')"
    by blast+
  show ?thesis
    using fields uah euro usd zeroed by simp
qed

text \<open>
  C9 as stated fails: over the same dates and composite-index records, the hryvna gives
  \<open>[100, 110, 100]\<close> and the dollar \<open>[100, 100, 100]\<close>.
\<close>

theorem get_data_charts_index_currency_counterexample:
  "get_data_charts ''CompositeIndex'' index_rows january_dates (Some UAH)
     = Inr (Some [100, 110, 100])
   \<and> get_data_charts ''CompositeIndex'' index_rows january_dates (Some USD)
     = Inr (Some [100, 100, 100])
   \<and> get_data_charts ''CompositeIndex'' index_rows january_dates (Some UAH)
     \<noteq> get_data_charts ''CompositeIndex'' index_rows january_dates (Some USD)"
  by (simp add: charts_defs january_dates_eval index_rows_eval)

section \<open>Properties of grahp_specification_data\<close>

text \<open>The first loop gets through only when every category has no record to cache.\<close>

lemma cache_loop_Inr:
  "cache_loop db dates kwargs cached_data = Inr c \<Longrightarrow>
   c = cached_data @ map (\<lambda>(graph_key, w). (graph_key, [])) kwargs"
proof (induction kwargs arbitrary: cached_data)
  case Nil
  then show ?case by simp
next
  case (Cons kw kwargs)
  obtain graph_key w where kw: "kw = (graph_key, w)" by (cases kw)
  from Cons.prems kw obtain klass where k: "get_class_mapping_get graph_key = Some klass"
    by (auto split: option.splits)
  from Cons.prems kw k
  have "cache_loop db dates kwargs (cached_data @ [(graph_key, [])]) = Inr c"
    by (auto simp: Let_def split: if_splits)
  from Cons.IH [OF this] kw show ?case by simp
qed

lemma cache_loop_no_records:
  assumes "\<forall>(graph_key, w)\<in>set kwargs.
             \<exists>klass. get_class_mapping_get graph_key = Some klass
                    \<and> (\<forall>r\<in>set (db klass). last dates < date r)"
  shows "cache_loop db dates kwargs cached_data
           = Inr (cached_data @ map (\<lambda>(graph_key, w). (graph_key, [])) kwargs)"
  using assms
proof (induction kwargs arbitrary: cached_data)
  case Nil
  then show ?case by simp
next
  case (Cons kw kwargs)
  obtain graph_key w where kw: "kw = (graph_key, w)" by (cases kw)
  from Cons.prems kw obtain klass where k: "get_class_mapping_get graph_key = Some klass"
    and none: "\<forall>r\<in>set (db klass). last dates < date r"
    by auto
  from none have e1: "filter (\<lambda>r. hd dates \<le> date r \<and> date r \<le> last dates) (db klass) = []"
    and e2: "filter (\<lambda>r. date r \<le> last dates) (db klass) = []"
    by (auto simp: filter_empty_conv)
  from Cons.prems have "\<forall>(graph_key, w)\<in>set kwargs.
             \<exists>klass. get_class_mapping_get graph_key = Some klass
                    \<and> (\<forall>r\<in>set (db klass). last dates < date r)"
    by simp
  from Cons.IH [OF this] kw k e1 e2 show ?case by simp
qed

lemma summ_loop_empty_pools:
  "summ_loop calculating_field kwargs step_date
     (map (\<lambda>(graph_key, w). (graph_key, [])) kws) summ = Inr summ"
  by (induction kws arbitrary: summ) (auto simp: qs_first_def qs_last_def)

lemma grahp_specification_data_unfold:
  assumes "2 \<le> length dates"
  shows "grahp_specification_data db dates currency kwargs =
           (case cache_loop db dates kwargs [] of
              Inl e \<Rightarrow> Inl e
            | Inr cached_data \<Rightarrow>
                map_sum id Some
                  (spec_dates_loop (currency_field currency) kwargs cached_data 0 dates []))"
proof -
  from assms have "\<not> length dates < 2" by simp
  then show ?thesis
    by (simp only: grahp_specification_data_def if_False Let_def)
qed

lemma spec_dates_loop_empty_pools:
  assumes "dates \<noteq> []"
  shows "spec_dates_loop calculating_field kwargs
           (map (\<lambda>(graph_key, w). (graph_key, [])) kws) 0 dates [] = Inl ZeroDivisionError"
proof -
  from assms obtain d ds where "dates = d # ds" by (cases dates) auto
  then show ?thesis
    by (simp add: summ_loop_empty_pools py_div_def)
qed

text \<open>
  With at least two dates the function never returns: a key that is no product code
  raises AttributeError, a category with a record raises UnboundLocalError, and when
  no category has a record the division by \<open>standart_value = 0\<close> raises
  ZeroDivisionError at the first date.
\<close>

lemma grahp_specification_data_raises:
  assumes "2 \<le> length dates"
  shows "grahp_specification_data db dates currency kwargs = Inl AttributeError
       \<or> grahp_specification_data db dates currency kwargs = Inl UnboundLocalError
       \<or> grahp_specification_data db dates currency kwargs = Inl ZeroDivisionError"
proof (cases "cache_loop db dates kwargs []")
  case (Inl e)
  have "cache_loop db dates kws cached = Inl e' \<Longrightarrow> e' = AttributeError \<or> e' = UnboundLocalError"
    for kws cached e'
    by (induction kws arbitrary: cached)
       (auto simp: Let_def split: option.splits if_splits)
  with Inl have "e = AttributeError \<or> e = UnboundLocalError" by blast
  with Inl show ?thesis
    by (auto simp: grahp_specification_data_unfold [OF assms])
next
  case (Inr c)
  then have c: "c = map (\<lambda>(graph_key, w). (graph_key, [])) kwargs"
    using cache_loop_Inr [of db dates kwargs "[]" c] by simp
  from assms have "dates \<noteq> []" by auto
  then have "spec_dates_loop (currency_field currency) kwargs c 0 dates []
               = Inl ZeroDivisionError"
    unfolding c by (rule spec_dates_loop_empty_pools)
  with Inr show ?thesis
    by (simp add: grahp_specification_data_unfold [OF assms])
qed

text \<open>When no category of the specification has a record at or before the last date,
  the denominator is the empty sum and the division raises.\<close>

lemma grahp_specification_data_no_records:
  assumes "2 \<le> length dates"
    and "\<forall>(graph_key, w)\<in>set kwargs.
           \<exists>klass. get_class_mapping_get graph_key = Some klass
                  \<and> (\<forall>r\<in>set (db klass). last dates < date r)"
  shows "grahp_specification_data db dates currency kwargs = Inl ZeroDivisionError"
proof -
  have c: "cache_loop db dates kwargs [] = Inr (map (\<lambda>(graph_key, w). (graph_key, [])) kwargs)"
    using cache_loop_no_records [OF assms(2), of "[]"] by simp
  from assms(1) have "dates \<noteq> []" by auto
  then have "spec_dates_loop (currency_field currency) kwargs
          (map (\<lambda>(graph_key, w). (graph_key, [])) kwargs) 0 dates [] = Inl ZeroDivisionError"
    by (rule spec_dates_loop_empty_pools)
  with c show ?thesis
    by (simp add: grahp_specification_data_unfold [OF assms(1)])
qed

lemmas grahp_defs =
  grahp_specification_data_def get_class_mapping_get_def
  TYPE_SHEET_def TYPE_BALKA_def TYPE_SCHVELLER_def TYPE_UGOLOK_def TYPE_PROFIL_TRUBA_def
  TYPE_KRUGLAYA_TRUBA_def

text \<open>
  C1 at the example of the specification: weights \<open>{beam: 2, corner: 1}\<close>, beam 50 then 60,
  corner 25. The claim gives a sequence with 116 at the dates where beam is 60; the code
  returns no sequence, it raises UnboundLocalError at \<open>standard_value += ...\<close>.
\<close>

theorem grahp_specification_data_composite_example:
  "grahp_specification_data composite_db january_dates None composite_kwargs
     = Inl UnboundLocalError"
  by (simp add: grahp_defs currency_field_def composite_db_def composite_kwargs_def
        january_dates_eval calendar_defs)

text \<open>
  C2 at a single category of weight 1: for the beam records \<open>{01-01: 100, 01-03: 110}\<close>
  \<open>get_data_charts\<close> returns \<open>[100, 100, 110]\<close> and \<open>grahp_specification_data\<close> raises
  UnboundLocalError.
\<close>

theorem grahp_specification_data_single_category:
  "get_data_charts ''Balka'' (beam_db Balka) january_dates None = Inr (Some [100, 100, 110])
   \<and> grahp_specification_data beam_db january_dates None [(TYPE_BALKA, 1)]
       = Inl UnboundLocalError"
  by (simp add: grahp_defs charts_defs beam_db_def beam_rows_eval january_dates_eval)

text \<open>
  C7 at a denominator of 0 that comes from a record: the first beam record is 0 and the
  weight is 1. The code raises UnboundLocalError, not ZeroDivisionError.
\<close>

theorem grahp_specification_data_zero_denominator:
  "grahp_specification_data zero_db january_dates None [(TYPE_BALKA, 1)]
     = Inl UnboundLocalError"
  by (simp add: grahp_defs currency_field_def zero_db_def zero_rows_eval january_dates_eval)

section \<open>Properties of get_specification_percent\<close>

lemmas type_defs =
  TYPE_INDEX_def TYPE_SHEET_def TYPE_BALKA_def TYPE_SCHVELLER_def TYPE_UGOLOK_def
  TYPE_PROFIL_TRUBA_def TYPE_KRUGLAYA_TRUBA_def TYPE_FINAL_METHOD_def
  TYPE_EXCHANGE_RATES_def TYPE_SHARE_SPECIFICATIONS_def

text \<open>
  C10. \<open>get_specification_percent\<close> returns the default weights of exactly the six product
  categories, keyed by their codes 2 to 7 and titled sheet, beam, channel, corner,
  profile pipe and round tube; every weight is positive and the six weights sum to 100.
\<close>

theorem get_specification_percent_defaults:
  "get_specification_percent =
     Inr [(''2'', \<lparr>spec_title = ''Sheet g/p'', spec_value = 60\<rparr>),
          (''3'', \<lparr>spec_title = ''Beam'', spec_value = 10\<rparr>),
          (''4'', \<lparr>spec_title = ''Channel'', spec_value = 10\<rparr>),
          (''5'', \<lparr>spec_title = ''Corner'', spec_value = 10\<rparr>),
          (''6'', \<lparr>spec_title = ''Profile pipe'', spec_value = 5\<rparr>),
          (''7'', \<lparr>spec_title = ''Round tube'', spec_value = 5\<rparr>)]
   \<and> map_sum id (map fst) get_specification_percent
       = Inr (map format_int [TYPE_SHEET, TYPE_BALKA, TYPE_SCHVELLER, TYPE_UGOLOK,
                              TYPE_PROFIL_TRUBA, TYPE_KRUGLAYA_TRUBA])
   \<and> map_sum id (list_all (\<lambda>(k, e). 0 < spec_value e)) get_specification_percent = Inr True
   \<and> map_sum id (\<lambda>items. sum_list (map (\<lambda>(k, e). spec_value e) items))
       get_specification_percent = Inr 100"
  by (simp add: get_specification_percent_def percent_item_def get_graph_names_def
        FILE_TYPES_def format_int_def type_defs)

section \<open>Properties of get_data_table\<close>

lemma getattr_opt_Inl: "getattr_opt x name = Inl e \<Longrightarrow> e = AttributeError"
  by (auto simp: getattr_opt_def getattr_def split: option.splits)

lemma getattr_opt_Some:
  "attrs r name \<noteq> None \<Longrightarrow> getattr_opt (Some r) name = Inr (value_of name r)"
  by (simp add: getattr_opt_def getattr_value_of)

lemma percent_change_nonzero:
  "ref \<noteq> 0 \<Longrightarrow> percent_change today_data ref = Inr ((today_data - ref) / ref * 100)"
  by (simp add: percent_change_def py_div_def)

lemma percent_change_zero: "percent_change today_data 0 = Inl ZeroDivisionError"
  by (simp add: percent_change_def py_div_def)

text \<open>The four reads of the price field: one missing record is enough to fail.\<close>

lemma four_getattr_missing:
  assumes "x1 = None \<or> x2 = None \<or> x3 = None \<or> x4 = None"
  shows "(case getattr_opt x1 name of
            Inl e \<Rightarrow> Inl e
          | Inr a \<Rightarrow>
         (case getattr_opt x2 name of
            Inl e \<Rightarrow> Inl e
          | Inr b \<Rightarrow>
         (case getattr_opt x3 name of
            Inl e \<Rightarrow> Inl e
          | Inr c \<Rightarrow>
         (case getattr_opt x4 name of
            Inl e \<Rightarrow> Inl e
          | Inr d \<Rightarrow> k a b c d)))) = Inl AttributeError"
proof -
  have none: "getattr_opt None name = Inl AttributeError"
    by (simp add: getattr_opt_def)
  from assms none show ?thesis
    by (auto split: sum.splits dest: getattr_opt_Inl)
qed

text \<open>The record of the start of the year, with its fallback, is missing only when
  there is no record at all.\<close>

lemma start_year_None:
  "(if qs_first (filter (\<lambda>r. y \<le> year_of (date r)) objects) = None
    then qs_last (filter (\<lambda>r. year_of (date r) \<le> y) objects)
    else qs_first (filter (\<lambda>r. y \<le> year_of (date r)) objects)) = None
   \<longleftrightarrow> objects = []"
proof
  assume a: "(if qs_first (filter (\<lambda>r. y \<le> year_of (date r)) objects) = None
    then qs_last (filter (\<lambda>r. year_of (date r) \<le> y) objects)
    else qs_first (filter (\<lambda>r. y \<le> year_of (date r)) objects)) = None"
  then have 1: "\<forall>r\<in>set objects. \<not> y \<le> year_of (date r)"
    and 2: "\<forall>r\<in>set objects. \<not> year_of (date r) \<le> y"
    by (auto simp: qs_first_None qs_last_None split: if_splits)
  show "objects = []"
  proof (cases objects)
    case Nil
    then show ?thesis .
  next
    case (Cons r rs)
    with 1 2 have "\<not> y \<le> year_of (date r)" and "\<not> year_of (date r) \<le> y" by simp_all
    then show ?thesis by linarith
  qed
next
  assume "objects = []"
  then show "(if qs_first (filter (\<lambda>r. y \<le> year_of (date r)) objects) = None
    then qs_last (filter (\<lambda>r. year_of (date r) \<le> y) objects)
    else qs_first (filter (\<lambda>r. y \<le> year_of (date r)) objects)) = None"
    by (simp add: qs_first_def qs_last_def)
qed

text \<open>
  C6. Let the dates one month and one year before today exist. When one of the four
  lookups of \<open>get_data_table\<close> finds no record (no record dated at or before today, or
  at or before the date a month ago, or at or before the date a year ago, or, for the
  start of the year with its fallback, no record at all), the function fails: reading
  the price field of None raises AttributeError, the exception by which the code
  reports a missing baseline.
\<close>

theorem get_data_table_missing_anchor:
  assumes "sub_relativedelta today 0 1 = Inr month_ago_date"
    and "sub_relativedelta today 1 0 = Inr year_ago_date"
    and "(\<forall>r\<in>set objects. today < date r)
       \<or> (\<forall>r\<in>set objects. month_ago_date < date r)
       \<or> objects = []
       \<or> (\<forall>r\<in>set objects. year_ago_date < date r)"
  shows "get_data_table today objects price_field = Inl AttributeError"
proof -
  let ?t = "qs_last (filter (\<lambda>r. date r \<le> today) objects)"
  let ?m = "qs_last (filter (\<lambda>r. date r \<le> month_ago_date) objects)"
  let ?s = "if qs_first (filter (\<lambda>r. year_of today \<le> year_of (date r)) objects) = None
            then qs_last (filter (\<lambda>r. year_of (date r) \<le> year_of today) objects)
            else qs_first (filter (\<lambda>r. year_of today \<le> year_of (date r)) objects)"
  let ?y = "qs_last (filter (\<lambda>r. date r \<le> year_ago_date) objects)"
  have "?t = None \<or> ?m = None \<or> ?s = None \<or> ?y = None"
    using assms(3) unfolding start_year_None qs_last_None by auto
  from four_getattr_missing [OF this] show ?thesis
    by (simp only: get_data_table_def Let_def assms(1,2) sum.case)
qed

lemmas table_defs =
  ord2ymd_def year_of_def sub_relativedelta_def calendar_defs Let_def

lemma table_rows_eval:
  "table_rows =
     [\<lparr>date = 738641, attrs = [''size_20'' \<mapsto> 80]\<rparr>,
      \<lparr>date = 738895, attrs = [''size_20'' \<mapsto> 90]\<rparr>,
      \<lparr>date = 739016, attrs = [''size_20'' \<mapsto> 100]\<rparr>,
      \<lparr>date = 739047, attrs = [''size_20'' \<mapsto> 120]\<rparr>]"
  by (simp add: table_rows_def calendar_defs)

lemma future_rows_eval:
  "future_rows =
     [\<lparr>date = 738521, attrs = [''size_20'' \<mapsto> 80]\<rparr>,
      \<lparr>date = 738855, attrs = [''size_20'' \<mapsto> 100]\<rparr>,
      \<lparr>date = 739261, attrs = [''size_20'' \<mapsto> 200]\<rparr>]"
  by (simp add: future_rows_def calendar_defs)

lemma recent_rows_eval:
  "recent_rows =
     [\<lparr>date = 738895, attrs = [''size_20'' \<mapsto> 90]\<rparr>,
      \<lparr>date = 739047, attrs = [''size_20'' \<mapsto> 120]\<rparr>]"
  by (simp add: recent_rows_def calendar_defs)

lemma month_before_june_15: "sub_relativedelta 739052 0 1 = Inr 739021"
  by (simp add: table_defs)

lemma year_before_june_15: "sub_relativedelta 739052 1 0 = Inr 738686"
  by (simp add: table_defs)

text \<open>
  On 2024-06-15 with records from 2024-01-10 on: nothing is dated at or before
  2023-06-15, and the table fails.
\<close>

theorem get_data_table_missing_anchor_witness:
  "sub_relativedelta 739052 0 1 = Inr 739021 \<and> sub_relativedelta 739052 1 0 = Inr 738686
   \<and> get_data_table 739052 recent_rows ''size_20'' = Inl AttributeError"
proof -
  have h: "(\<forall>r\<in>set recent_rows. 739052 < date r)
       \<or> (\<forall>r\<in>set recent_rows. 739021 < date r)
       \<or> recent_rows = []
       \<or> (\<forall>r\<in>set recent_rows. 738686 < date r)"
    by (simp add: recent_rows_eval)
  show ?thesis
    using month_before_june_15 year_before_june_15
      get_data_table_missing_anchor [OF month_before_june_15 year_before_june_15 h, of "''size_20''"]
    by simp
qed

text \<open>
  C5, as the code has it. Let the store be in date order, every record carry the price
  field, and the dates one month and one year before today exist. Let \<open>c\<close>, \<open>m\<close> and \<open>y\<close>
  be the most recent records at or before today, the date a month ago and the date a
  year ago. Let \<open>s\<close> be the earliest record dated in the current calendar year or in a
  later year or, when there is no such record, the most recent record at or before the
  end of the current year. When the values of \<open>m\<close>, \<open>s\<close> and \<open>y\<close> are not 0, the table
  holds the value of \<open>c\<close> as \<open>current\<close> and, for each other anchor, the percentage
  \<open>(current - reference) / reference * 100\<close>.
\<close>

theorem get_data_table_deltas:
  assumes "date_ordered objects"
    and "\<forall>r\<in>set objects. attrs r price_field \<noteq> None"
    and "sub_relativedelta today 0 1 = Inr month_ago_date"
    and "sub_relativedelta today 1 0 = Inr year_ago_date"
    and "c \<in> set objects \<and> date c \<le> today
         \<and> (\<forall>r\<in>set objects. date r \<le> today \<longrightarrow> date r \<le> date c)"
    and "m \<in> set objects \<and> date m \<le> month_ago_date
         \<and> (\<forall>r\<in>set objects. date r \<le> month_ago_date \<longrightarrow> date r \<le> date m)"
    and "y \<in> set objects \<and> date y \<le> year_ago_date
         \<and> (\<forall>r\<in>set objects. date r \<le> year_ago_date \<longrightarrow> date r \<le> date y)"
    and "s \<in> set objects
         \<and> (year_of today \<le> year_of (date s)
              \<and> (\<forall>r\<in>set objects. year_of today \<le> year_of (date r) \<longrightarrow> date s \<le> date r)
            \<or> (\<forall>r\<in>set objects. year_of (date r) < year_of today)
              \<and> (\<forall>r\<in>set objects. date r \<le> date s))"
    and "value_of price_field m \<noteq> 0" and "value_of price_field s \<noteq> 0"
    and "value_of price_field y \<noteq> 0"
  shows "get_data_table today objects price_field =
           Inr \<lparr>current = value_of price_field c,
                month_ago = (value_of price_field c - value_of price_field m)
                              / value_of price_field m * 100,
                start_year = (value_of price_field c - value_of price_field s)
                              / value_of price_field s * 100,
                year_ago = (value_of price_field c - value_of price_field y)
                              / value_of price_field y * 100\<rparr>"
proof -
  have t: "qs_last (filter (\<lambda>r. date r \<le> today) objects) = Some c"
    using assms(1,5) by (intro qs_last_latest) auto
  have mo: "qs_last (filter (\<lambda>r. date r \<le> month_ago_date) objects) = Some m"
    using assms(1,6) by (intro qs_last_latest) auto
  have ye: "qs_last (filter (\<lambda>r. date r \<le> year_ago_date) objects) = Some y"
    using assms(1,7) by (intro qs_last_latest) auto
  have st: "(if qs_first (filter (\<lambda>r. year_of today \<le> year_of (date r)) objects) = None
             then qs_last (filter (\<lambda>r. year_of (date r) \<le> year_of today) objects)
             else qs_first (filter (\<lambda>r. year_of today \<le> year_of (date r)) objects)) = Some s"
  proof (cases "year_of today \<le> year_of (date s)
              \<and> (\<forall>r\<in>set objects. year_of today \<le> year_of (date r) \<longrightarrow> date s \<le> date r)")
    case True
    with assms(1,8)
    have "qs_first (filter (\<lambda>r. year_of today \<le> year_of (date r)) objects) = Some s"
      by (intro qs_first_earliest) auto
    then show ?thesis by simp
  next
    case False
    with assms(8) have old: "\<forall>r\<in>set objects. year_of (date r) < year_of today"
      and latest: "\<forall>r\<in>set objects. date r \<le> date s" and s: "s \<in> set objects"
      by auto
    from old have "qs_first (filter (\<lambda>r. year_of today \<le> year_of (date r)) objects) = None"
      unfolding qs_first_None by auto
    moreover from old s have "year_of (date s) \<le> year_of today" by auto
    with assms(1) s latest
    have "qs_last (filter (\<lambda>r. year_of (date r) \<le> year_of today) objects) = Some s"
      by (intro qs_last_latest) auto
    ultimately show ?thesis by simp
  qed
  have gc: "getattr_opt (Some c) price_field = Inr (value_of price_field c)"
    and gm: "getattr_opt (Some m) price_field = Inr (value_of price_field m)"
    and gs: "getattr_opt (Some s) price_field = Inr (value_of price_field s)"
    and gy: "getattr_opt (Some y) price_field = Inr (value_of price_field y)"
    using assms(2,5,6,7,8) by (simp_all add: getattr_opt_Some)
  show ?thesis
    by (simp only: get_data_table_def Let_def assms(3,4) sum.case t mo ye st gc gm gs gy
          percent_change_nonzero [OF assms(9)] percent_change_nonzero [OF assms(10)]
          percent_change_nonzero [OF assms(11)])
qed

text \<open>
  On 2024-06-15, with records 80 on 2023-05-01, 90 on 2024-01-10, 100 on 2024-05-10 and
  120 on 2024-06-10: current is 120, the record of a month ago is 100 and the delta is
  20 percent.
\<close>

theorem get_data_table_deltas_witness:
  "date_ordered table_rows
   \<and> sub_relativedelta 739052 0 1 = Inr 739021 \<and> sub_relativedelta 739052 1 0 = Inr 738686
   \<and> get_data_table 739052 table_rows ''size_20''
       = Inr \<lparr>current = 120, month_ago = 20, start_year = 100 / 3, year_ago = 50\<rparr>"
proof -
  have h1: "date_ordered table_rows"
    by (simp add: table_rows_eval date_ordered_def)
  have h2: "\<forall>r\<in>set table_rows. attrs r ''size_20'' \<noteq> None"
    by (simp add: table_rows_eval)
  have h5: "table_rows ! 3 \<in> set table_rows \<and> date (table_rows ! 3) \<le> 739052
         \<and> (\<forall>r\<in>set table_rows. date r \<le> 739052 \<longrightarrow> date r \<le> date (table_rows ! 3))"
    by (simp add: table_rows_eval)
  have h6: "table_rows ! 2 \<in> set table_rows \<and> date (table_rows ! 2) \<le> 739021
         \<and> (\<forall>r\<in>set table_rows. date r \<le> 739021 \<longrightarrow> date r \<le> date (table_rows ! 2))"
    by (simp add: table_rows_eval)
  have h7: "table_rows ! 0 \<in> set table_rows \<and> date (table_rows ! 0) \<le> 738686
         \<and> (\<forall>r\<in>set table_rows. date r \<le> 738686 \<longrightarrow> date r \<le> date (table_rows ! 0))"
    by (simp add: table_rows_eval)
  have h8: "table_rows ! 1 \<in> set table_rows
         \<and> (year_of 739052 \<le> year_of (date (table_rows ! 1))
              \<and> (\<forall>r\<in>set table_rows. year_of 739052 \<le> year_of (date r)
                    \<longrightarrow> date (table_rows ! 1) \<le> date r)
            \<or> (\<forall>r\<in>set table_rows. year_of (date r) < year_of 739052)
              \<and> (\<forall>r\<in>set table_rows. date r \<le> date (table_rows ! 1)))"
    by (simp add: table_rows_eval table_defs)
  have h9: "value_of ''size_20'' (table_rows ! 2) \<noteq> 0"
    and h10: "value_of ''size_20'' (table_rows ! 1) \<noteq> 0"
    and h11: "value_of ''size_20'' (table_rows ! 0) \<noteq> 0"
    by (simp_all add: table_rows_eval value_of_def)
  have vals: "value_of ''size_20'' (table_rows ! 3) = 120"
    "value_of ''size_20'' (table_rows ! 2) = 100"
    "value_of ''size_20'' (table_rows ! Suc 0) = 90"
    "value_of ''size_20'' (table_rows ! 0) = 80"
    by (simp_all add: table_rows_eval value_of_def)
  show ?thesis
    using h1 month_before_june_15 year_before_june_15
      get_data_table_deltas [OF h1 h2 month_before_june_15 year_before_june_15
        h5 h6 h7 h8 h9 h10 h11]
    by (simp add: vals)
qed

text \<open>
  C5 as stated fails where no record is dated in the current year and one is dated
  later. On 2024-06-15 with records 80 on 2023-01-01, 100 on 2023-12-01 and 200 on
  2025-01-10, the claim takes the record of 2023-12-01 for the start of the year, which
  gives 0 percent against the current value 100; the code takes the record of
  2025-01-10 and returns -50 percent.
\<close>

theorem get_data_table_deltas_counterexample:
  "get_data_table (ymd2ord 2024 6 15) future_rows ''size_20''
     = Inr \<lparr>current = 100, month_ago = 0, start_year = - 50, year_ago = 25\<rparr>"
  by (simp add: get_data_table_def future_rows_eval table_defs qs_first_def qs_last_def
        getattr_opt_def getattr_def percent_change_def py_div_def)

end
